theory Spec2Isabelle
  imports Main
begin

section \<open>Strings and numbers of the source language\<close>

text \<open>
  A JavaScript string is a sequence of UTF-16 code units. They are kept as numbers, so
  that \<open>trim\<close> can be modelled with the full white-space table of the language and
  not only its ASCII part. \<open>str\<close> embeds the ASCII literals of the source.
\<close>

type_synonym js_string = "nat list"

definition str :: "string \<Rightarrow> js_string" where
  "str s = map of_char s"

text \<open>
  \<open>String.prototype.trim\<close> removes WhiteSpace and LineTerminator code points from both
  ends: TAB, LF, VT, FF, CR, SPACE, NBSP, U+1680, U+2000 to U+200A, U+2028, U+2029,
  U+202F, U+205F, U+3000 and U+FEFF.
\<close>

definition is_js_whitespace :: "nat \<Rightarrow> bool" where
  "is_js_whitespace c =
     (c = 9 \<or> c = 10 \<or> c = 11 \<or> c = 12 \<or> c = 13 \<or> c = 32 \<or> c = 160 \<or> c = 5760
      \<or> (8192 \<le> c \<and> c \<le> 8202) \<or> c = 8232 \<or> c = 8233 \<or> c = 8239 \<or> c = 8287
      \<or> c = 12288 \<or> c = 65279)"

definition trim :: "js_string \<Rightarrow> js_string" where
  "trim s = rev (dropWhile is_js_whitespace (rev (dropWhile is_js_whitespace s)))"

text \<open>A string in a boolean position is true exactly when it is not empty.\<close>

definition truthy :: "js_string \<Rightarrow> bool" where
  "truthy s = (s \<noteq> [])"

definition js_includes :: "'a list \<Rightarrow> 'a \<Rightarrow> bool" where
  "js_includes xs x = (x \<in> set xs)"

text \<open>
  \<open>s.split(c)\<close> for a separator of one code unit: the segments between the
  occurrences of \<open>c\<close>; the result always has at least one segment.
\<close>

fun split :: "js_string \<Rightarrow> nat \<Rightarrow> js_string list" where
  "split [] c = [[]]"
| "split (x # xs) c =
     (if x = c then [] # split xs c
      else (case split xs c of
              [] \<Rightarrow> [[x]]
            | seg # segs \<Rightarrow> (x # seg) # segs))"

text \<open>\<open>Array.prototype.pop\<close> returns the last element, or undefined on an empty array.\<close>

definition pop :: "'a list \<Rightarrow> 'a option" where
  "pop xs = (if xs = [] then None else Some (last xs))"

text \<open>
  The decimal text of an integer number, as \<open>String(n)\<close> and a template literal
  produce it (integers below \<open>10^21\<close> in size are printed without an exponent; team sizes
  and epoch milliseconds are far below).
\<close>

fun digits_of :: "nat \<Rightarrow> js_string" where
  "digits_of n = (if n < 10 then [48 + n] else digits_of (n div 10) @ [48 + n mod 10])"

declare digits_of.simps [simp del]

definition String_of_number :: "int \<Rightarrow> js_string" where
  "String_of_number i = (if i < 0 then 45 # digits_of (nat (- i)) else digits_of (nat i))"

text \<open>A value interpolated into a template literal; undefined prints as \<open>undefined\<close>.\<close>

definition interpolate :: "js_string option \<Rightarrow> js_string" where
  "interpolate v = (case v of None \<Rightarrow> str ''undefined'' | Some s \<Rightarrow> s)"

section \<open>The form state\<close>

record profiling =
  products :: "js_string list"
  productsOther :: js_string
  audience :: "js_string list"
  audienceOther :: js_string
  teamSize :: int

text \<open>
  The three pain-point groups each have a field \<open>other\<close> in the source; the record
  fields carry the group as a suffix to keep them apart.
\<close>

record customerEnd_group =
  lms :: bool
  conversionTimeQuote :: bool
  rightCustomers :: bool
  other_customerEnd :: js_string

record internalOps_group =
  finance :: bool
  reports :: bool
  dk :: bool
  dayToDayBookings :: bool
  onTripOps :: bool
  trainingNewJoinee :: bool
  other_internalOps :: js_string

record supplierEnd_group =
  marketplace :: bool
  prices :: bool
  landPartPrices :: bool
  other_supplierEnd :: js_string

record painPoints =
  customerEnd :: customerEnd_group
  internalOps :: internalOps_group
  supplierEnd :: supplierEnd_group

text \<open>
  A browser \<open>File\<close>: its name, its MIME type and its bytes. The field \<open>file\<close> of
  \<open>form.photo\<close> is written \<open>photo_file\<close>; \<open>None\<close> is the source's \<open>null\<close>.
\<close>

record js_file =
  name :: js_string
  type :: js_string
  bytes :: "nat list"

record photo =
  photo_file :: "js_file option"
  previewUrl :: js_string

record form_state =
  profiling :: profiling
  painPoints :: painPoints
  photo :: photo

definition initialForm :: form_state where
  "initialForm =
     \<lparr> profiling =
         \<lparr> products = [str ''Tours & Experiences''], productsOther = [],
           audience = [str ''Direct Consumers''], audienceOther = [], teamSize = 12 \<rparr>,
       painPoints =
         \<lparr> customerEnd =
             \<lparr> lms = False, conversionTimeQuote = False, rightCustomers = False,
               other_customerEnd = [] \<rparr>,
           internalOps =
             \<lparr> finance = False, reports = False, dk = False, dayToDayBookings = False,
               onTripOps = False, trainingNewJoinee = False, other_internalOps = [] \<rparr>,
           supplierEnd =
             \<lparr> marketplace = False, prices = False, landPartPrices = False,
               other_supplierEnd = [] \<rparr> \<rparr>,
       photo = \<lparr> photo_file = None, previewUrl = [] \<rparr> \<rparr>"

section \<open>Step validation\<close>

record step =
  step_id :: js_string
  title :: js_string

definition STEPS :: "step list" where
  "STEPS =
     [ \<lparr> step_id = str ''profiling'', title = str ''Profiling'' \<rparr>,
       \<lparr> step_id = str ''pain'', title = str ''Pain Points'' \<rparr>,
       \<lparr> step_id = str ''photo'', title = str ''Photo'' \<rparr>,
       \<lparr> step_id = str ''review'', title = str ''Review & Submit'' \<rparr> ]"

text \<open>
  \<open>validateStep\<close> returns the value of \<open>productsOk && audienceOk\<close>, which may be a
  string; its only reader negates it, so the model returns its truth value.
\<close>

definition validateStep :: "js_string \<Rightarrow> form_state \<Rightarrow> bool" where
  "validateStep stepId form =
     (if stepId = str ''profiling'' then
        (let p = profiling form;
             productsOk = (0 < length (products p) \<and>
                (\<not> js_includes (products p) (str ''Other'') \<or> truthy (trim (productsOther p))));
             audienceOk = (0 < length (audience p) \<and>
                (\<not> js_includes (audience p) (str ''Other'') \<or> truthy (trim (audienceOther p))))
         in productsOk \<and> audienceOk)
      else if stepId = str ''pain'' then True
      else if stepId = str ''photo'' then True
      else True)"

section \<open>The payload builder\<close>

text \<open>
  The payload object has the keys \<open>profiling\<close> and \<open>pain_points\<close>, the latter with the
  keys \<open>customer_end\<close>, \<open>internal_ops\<close> and \<open>supplier_end\<close>. The key \<open>profiling\<close> is
  written \<open>profiling_wire\<close> here, the form state having a field of that name already.
\<close>

record pain_points_wire =
  customer_end :: customerEnd_group
  internal_ops :: internalOps_group
  supplier_end :: supplierEnd_group

record payload =
  profiling_wire :: profiling
  pain_points :: pain_points_wire

definition buildPayload :: "form_state \<Rightarrow> payload" where
  "buildPayload form =
     \<lparr> profiling_wire = profiling form,
       pain_points =
         \<lparr> customer_end = customerEnd (painPoints form),
           internal_ops = internalOps (painPoints form),
           supplier_end = supplierEnd (painPoints form) \<rparr> \<rparr>"

section \<open>The team size in the two summaries\<close>

text \<open>
  \<open>teamLabel\<close> is the slider's label in \<open>renderProfiling\<close>; \<open>reviewTeamSize\<close> is the
  text after "Team size:" in \<open>renderReview\<close>, where React prints a number as its
  decimal text.
\<close>

definition teamLabel :: "form_state \<Rightarrow> js_string" where
  "teamLabel form =
     (if 100 \<le> teamSize (profiling form) then str ''100+''
      else String_of_number (teamSize (profiling form)))"

definition reviewTeamSize :: "form_state \<Rightarrow> js_string" where
  "reviewTeamSize form =
     (if 100 \<le> teamSize (profiling form) then str ''100+''
      else String_of_number (teamSize (profiling form)))"

section \<open>The submission\<close>

subsection \<open>The remote services\<close>

text \<open>
  An error object of the client library; \<open>None\<close> is a missing \<open>message\<close>.
\<close>

record js_error =
  error_message :: "js_string option"

text \<open>
  The row that \<open>insert(...).select().single()\<close> returns; the handler reads its \<open>id\<close>
  (a uuid, by the README's table definition) and prints it into the storage key.
\<close>

record survey_row =
  row_id :: js_string

record public_data =
  publicUrl :: "js_string option"

text \<open>
  What the outside world answers during one run of \<open>handleSubmit\<close>. Each remote
  operation is called at most once in a run, so one answer each covers every behaviour of
  the services. With \<open>single()\<close> the insert answers with an error or with exactly one
  row. \<open>now_iso\<close> is \<open>new Date().toISOString()\<close> and \<open>now_ms\<close> is \<open>Date.now()\<close>.
\<close>

record remote =
  insert_result :: "js_error + survey_row"
  uploadError :: "js_error option"
  publicData :: "public_data option"
  updateError :: "js_error option"
  now_iso :: js_string
  now_ms :: int

text \<open>
  The remote calls, with their arguments: the insert of \<open>{data, created_at}\<close> into
  \<open>surveys\<close>; the upload \<open>(path, file, {contentType, upsert})\<close> to \<open>survey-uploads\<close>;
  \<open>getPublicUrl(path)\<close>; the update \<open>{photo_path, photo_url}\<close> of the row with the
  given id.
\<close>

datatype call =
    Insert payload js_string
  | Upload js_string js_file js_string bool
  | GetPublicUrl js_string
  | Update js_string "js_string option" js_string

fun is_insert :: "call \<Rightarrow> bool" where
  "is_insert (Insert p t) = True"
| "is_insert c = False"

fun is_upload :: "call \<Rightarrow> bool" where
  "is_upload (Upload k f ct u) = True"
| "is_upload c = False"

fun is_blob_store :: "call \<Rightarrow> bool" where
  "is_blob_store (Upload k f ct u) = True"
| "is_blob_store (GetPublicUrl k) = True"
| "is_blob_store c = False"

fun is_update :: "call \<Rightarrow> bool" where
  "is_update (Update k u i) = True"
| "is_update c = False"

record survey_record =
  record_id :: js_string
  created_at :: js_string
  data :: payload
  photo_path :: "js_string option"
  photo_url :: "js_string option"

record store =
  rows :: "survey_record list"
  objects :: "(js_string \<times> js_file) list"

text \<open>
  Modelled from the spec: the Remote Record Store and the Remote Blob Store are services
  outside the repository. A successful insert creates a record with the generated id, the
  given timestamp and data, and null photo fields; a successful upload stores the object
  under its key; a successful update sets \<open>photo_path\<close> and \<open>photo_url\<close> of the record
  with the given id. A call that fails changes nothing.
\<close>

definition store_insert :: "js_string \<Rightarrow> payload \<Rightarrow> js_string \<Rightarrow> store \<Rightarrow> store" where
  "store_insert rid p t s =
     s\<lparr>rows := rows s @
       [\<lparr> record_id = rid, created_at = t, data = p, photo_path = None, photo_url = None \<rparr>]\<rparr>"

definition store_upload :: "js_string \<Rightarrow> js_file \<Rightarrow> store \<Rightarrow> store" where
  "store_upload k f s = s\<lparr>objects := objects s @ [(k, f)]\<rparr>"

definition store_update :: "js_string \<Rightarrow> js_string \<Rightarrow> js_string option \<Rightarrow> store \<Rightarrow> store" where
  "store_update rid k u s =
     s\<lparr>rows := map (\<lambda>r. if record_id r = rid then r\<lparr>photo_path := Some k, photo_url := u\<rparr> else r)
                 (rows s)\<rparr>"

subsection \<open>The storage key\<close>

definition fileExt :: "js_file \<Rightarrow> js_string option" where
  "fileExt f = pop (split (name f) 46)"

definition fileName :: "js_string \<Rightarrow> int \<Rightarrow> js_file \<Rightarrow> js_string" where
  "fileName surveyId now f =
     str ''survey-'' @ surveyId @ str ''-'' @ String_of_number now @ str ''.''
       @ interpolate (fileExt f)"

definition filePath :: "js_string \<Rightarrow> int \<Rightarrow> js_file \<Rightarrow> js_string" where
  "filePath surveyId now f = str ''survey-photos/'' @ fileName surveyId now f"

text \<open>
  The extension of a file name as the specification uses the word: the text after the
  last dot, and nothing when the name has no dot.
\<close>

definition original_extension :: "js_string \<Rightarrow> js_string" where
  "original_extension n = (if 46 \<in> set n then rev (takeWhile (\<lambda>c. c \<noteq> 46) (rev n)) else [])"

definition spec_storage_key :: "js_string \<Rightarrow> int \<Rightarrow> js_string \<Rightarrow> js_string" where
  "spec_storage_key surveyId now n =
     str ''survey-photos/'' @ str ''survey-'' @ surveyId @ str ''-'' @ String_of_number now
       @ str ''.'' @ original_extension n"

subsection \<open>The sequence of remote calls\<close>

text \<open>\<open>publicData?.publicUrl ?? null\<close>\<close>

definition publicUrl_or_null :: "public_data option \<Rightarrow> js_string option" where
  "publicUrl_or_null d = (case d of None \<Rightarrow> None | Some pd \<Rightarrow> publicUrl pd)"

text \<open>
  The body of the \<open>try\<close> block of \<open>handleSubmit\<close>: \<open>Inl e\<close> is the error thrown,
  the list holds the remote calls made, in order, and the store is the one they leave
  behind. Each call is awaited before the next statement runs.
\<close>

definition submitBody :: "form_state \<Rightarrow> remote \<Rightarrow> store \<Rightarrow> (js_error + unit) \<times> call list \<times> store" where
  "submitBody form r s =
     (let payload = buildPayload form;
          c1 = Insert payload (now_iso r)
      in case insert_result r of
           Inl insertError \<Rightarrow> (Inl insertError, [c1], s)
         | Inr surveyRow \<Rightarrow>
             (let s1 = store_insert (row_id surveyRow) payload (now_iso r) s;
                  surveyId = row_id surveyRow
              in case photo_file (photo form) of
                   None \<Rightarrow> (Inr (), [c1], s1)
                 | Some f \<Rightarrow>
                     (let path = filePath surveyId (now_ms r) f;
                          c2 = Upload path f (type f) False
                      in case uploadError r of
                           Some e \<Rightarrow> (Inl e, [c1, c2], s1)
                         | None \<Rightarrow>
                             (let s2 = store_upload path f s1;
                                  c3 = GetPublicUrl path;
                                  url = publicUrl_or_null (publicData r);
                                  c4 = Update path url surveyId
                              in case updateError r of
                                   Some e \<Rightarrow> (Inl e, [c1, c2, c3, c4], s2)
                                 | None \<Rightarrow>
                                     (Inr (), [c1, c2, c3, c4],
                                      store_update surveyId path url s2)))))"

section \<open>The wizard\<close>

datatype status_state = Idle | Loading | Success | Error

record ui_status =
  state :: status_state
  message :: js_string

text \<open>The React state of the component \<open>App\<close>, with the initial values of its hooks.\<close>

record app =
  stepIndex :: int
  form :: form_state
  status :: ui_status
  consent :: bool
  showSuccess :: bool

definition initialApp :: app where
  "initialApp =
     \<lparr> stepIndex = 0, form = initialForm, status = \<lparr> state = Idle, message = [] \<rparr>,
       consent = True, showSuccess = False \<rparr>"

text \<open>
  \<open>STEPS[stepIndex]\<close> is undefined outside the array. The component reads \<open>step.id\<close>
  while it renders to compute \<open>canProceed\<close>, so with an undefined step there is no
  \<open>canProceed\<close> for \<open>nextStep\<close> to read: that is the value \<open>None\<close>.
\<close>

definition step_at :: "int \<Rightarrow> step option" where
  "step_at i = (if 0 \<le> i \<and> i < int (length STEPS) then Some (STEPS ! nat i) else None)"

definition canProceed :: "app \<Rightarrow> bool option" where
  "canProceed a =
     (case step_at (stepIndex a) of
        None \<Rightarrow> None
      | Some st \<Rightarrow> Some (validateStep (step_id st) (form a)))"

definition nextStep :: "app \<Rightarrow> app option" where
  "nextStep a =
     (case canProceed a of
        None \<Rightarrow> None
      | Some ok \<Rightarrow>
          if \<not> ok then
            Some (a\<lparr>status :=
              \<lparr> state = Error, message = str ''Please complete this step to continue.'' \<rparr>\<rparr>)
          else
            Some (a\<lparr>status := \<lparr> state = Idle, message = [] \<rparr>,
                    stepIndex := min (stepIndex a + 1) (int (length STEPS) - 1)\<rparr>))"

definition prevStep :: "app \<Rightarrow> app" where
  "prevStep a =
     a\<lparr>status := \<lparr> state = Idle, message = [] \<rparr>, stepIndex := max (stepIndex a - 1) 0\<rparr>"

text \<open>
  The callback that \<open>handleSubmit\<close> schedules 1800 ms after a success (its calls to
  \<open>URL.revokeObjectURL\<close> and on the file input touch no React state).
\<close>

definition successTimeout :: "app \<Rightarrow> app" where
  "successTimeout a =
     a\<lparr>showSuccess := False, status := \<lparr> state = Idle, message = [] \<rparr>,
       form := initialForm, consent := True, stepIndex := 0\<rparr>"

text \<open>
  What can happen to the wizard between two renders: the two navigation buttons, a
  \<open>setForm\<close> with an updater function (every edit of the form is one), the consent
  checkbox, and the timeout after a success.
\<close>

datatype action =
    NextStep
  | PrevStep
  | SetForm "form_state \<Rightarrow> form_state"
  | SetConsent bool
  | SuccessTimeout

fun perform :: "action \<Rightarrow> app \<Rightarrow> app option" where
  "perform NextStep a = nextStep a"
| "perform PrevStep a = Some (prevStep a)"
| "perform (SetForm f) a = Some (a\<lparr>form := f (form a)\<rparr>)"
| "perform (SetConsent b) a = Some (a\<lparr>consent := b\<rparr>)"
| "perform SuccessTimeout a = Some (successTimeout a)"

fun run :: "action list \<Rightarrow> app \<Rightarrow> app option" where
  "run [] a = Some a"
| "run (x # xs) a = (case perform x a of None \<Rightarrow> None | Some a' \<Rightarrow> run xs a')"

section \<open>The submit handler\<close>

text \<open>\<open>error.message || 'Submission failed.'\<close>\<close>

definition message_or_default :: "js_error \<Rightarrow> js_string" where
  "message_or_default e =
     (case error_message e of
        None \<Rightarrow> str ''Submission failed.''
      | Some m \<Rightarrow> if truthy m then m else str ''Submission failed.'')"

text \<open>
  \<open>handleSubmit\<close>, up to the point where the handler returns: the React state it
  leaves (the status \<open>loading\<close> set before the \<open>try\<close> block is overwritten on every
  path), the remote calls it made and the store.
\<close>

definition handleSubmit :: "app \<Rightarrow> remote \<Rightarrow> store \<Rightarrow> app \<times> call list \<times> store" where
  "handleSubmit a r s =
     (if \<not> consent a then
        (a\<lparr>status := \<lparr> state = Error, message = str ''Please confirm consent to submit.'' \<rparr>\<rparr>,
         [], s)
      else
        (case submitBody (form a) r s of
           (Inl e, cs, s') \<Rightarrow>
             (a\<lparr>status := \<lparr> state = Error, message = message_or_default e \<rparr>\<rparr>, cs, s')
         | (Inr u, cs, s') \<Rightarrow>
             (a\<lparr>status := \<lparr> state = Success, message = str ''Survey submitted successfully.'' \<rparr>,
                showSuccess := True\<rparr>, cs, s')))"

definition app_after :: "app \<times> call list \<times> store \<Rightarrow> app" where
  "app_after x = fst x"

definition calls_of :: "app \<times> call list \<times> store \<Rightarrow> call list" where
  "calls_of x = fst (snd x)"

definition store_after :: "app \<times> call list \<times> store \<Rightarrow> store" where
  "store_after x = snd (snd x)"

section \<open>Sample inputs\<close>

text \<open>Concrete forms, answers of the services and stores, for the instances below.\<close>

definition otherBlank :: app where
  "otherBlank =
     initialApp\<lparr>form := initialForm\<lparr>profiling :=
       (profiling initialForm)\<lparr>products := [str ''Corporate Travel'', str ''Other''],
                                productsOther := str ''  ''\<rparr>\<rparr>\<rparr>"

definition audienceBlank :: app where
  "audienceBlank =
     initialApp\<lparr>form := initialForm\<lparr>profiling :=
       (profiling initialForm)\<lparr>audience := [str ''Other''], audienceOther := [9, 160, 8195]\<rparr>\<rparr>\<rparr>"

definition lastStep :: app where
  "lastStep = initialApp\<lparr>stepIndex := 3\<rparr>"

definition tripPhoto :: js_file where
  "tripPhoto = \<lparr> name = str ''trip.jpg'', type = str ''image/jpeg'', bytes = [255, 216, 255] \<rparr>"

definition barePhoto :: js_file where
  "barePhoto = \<lparr> name = str ''photo'', type = str ''image/jpeg'', bytes = [255, 216, 255] \<rparr>"

definition withPhoto :: app where
  "withPhoto =
     initialApp\<lparr>form := initialForm\<lparr>photo :=
       \<lparr> photo_file = Some tripPhoto, previewUrl = str ''blob:preview'' \<rparr>\<rparr>\<rparr>"

definition remoteOk :: remote where
  "remoteOk =
     \<lparr> insert_result = Inr \<lparr> row_id = str ''7'' \<rparr>,
       uploadError = None,
       publicData = Some \<lparr> publicUrl = Some (str ''https://cdn.example/trip.jpg'') \<rparr>,
       updateError = None,
       now_iso = str ''2024-01-01T00:00:00.000Z'',
       now_ms = 1704067200000 \<rparr>"

definition denied :: js_error where
  "denied = \<lparr> error_message = Some (str ''permission denied'') \<rparr>"

definition emptyStore :: store where
  "emptyStore = \<lparr> rows = [], objects = [] \<rparr>"

section \<open>Properties of the payload builder and the summaries\<close>

text \<open>
  C7: for every form state the payload holds the profiling selections and the three
  pain-point groups exactly as the form state has them, under the wire names, and does
  not depend on the photo. (As a function of the form alone, \<open>buildPayload\<close> is
  deterministic and has no effect.)
\<close>

theorem buildPayload_verbatim:
  "profiling_wire (buildPayload f) = profiling f
   \<and> customer_end (pain_points (buildPayload f)) = customerEnd (painPoints f)
   \<and> internal_ops (pain_points (buildPayload f)) = internalOps (painPoints f)
   \<and> supplier_end (pain_points (buildPayload f)) = supplierEnd (painPoints f)
   \<and> buildPayload (f\<lparr>photo := ph\<rparr>) = buildPayload f"
  by (simp add: buildPayload_def)

text \<open>
  C9: with a team size of 100, the slider label and the review summary both show
  \<open>100+\<close>, and the payload carries the integer 100.
\<close>

theorem teamSize_sentinel:
  "teamSize (profiling f) = 100 \<Longrightarrow>
     teamLabel f = str ''100+'' \<and> reviewTeamSize f = str ''100+''
     \<and> teamSize (profiling_wire (buildPayload f)) = 100"
  by (simp add: teamLabel_def reviewTeamSize_def buildPayload_def)

theorem teamSize_sentinel_witness:
  "teamSize (profiling (initialForm\<lparr>profiling := (profiling initialForm)\<lparr>teamSize := 100\<rparr>\<rparr>)) = 100
   \<and> teamLabel (initialForm\<lparr>profiling := (profiling initialForm)\<lparr>teamSize := 100\<rparr>\<rparr>)
       = str ''100+''
   \<and> reviewTeamSize (initialForm\<lparr>profiling := (profiling initialForm)\<lparr>teamSize := 100\<rparr>\<rparr>)
       = str ''100+''
   \<and> teamSize (profiling_wire
        (buildPayload (initialForm\<lparr>profiling := (profiling initialForm)\<lparr>teamSize := 100\<rparr>\<rparr>))) = 100"
  using teamSize_sentinel [of "initialForm\<lparr>profiling := (profiling initialForm)\<lparr>teamSize := 100\<rparr>\<rparr>"]
  by simp

section \<open>Properties of the wizard\<close>

lemma list_all_dropWhile: "list_all P (dropWhile P xs) = list_all P xs"
  by (induction xs) auto

lemma trim_empty_iff: "trim s = [] \<longleftrightarrow> list_all is_js_whitespace s"
proof -
  have "trim s = [] \<longleftrightarrow> list_all is_js_whitespace (rev (dropWhile is_js_whitespace s))"
    by (simp add: trim_def dropWhile_eq_Nil_conv list_all_iff)
  also have "\<dots> \<longleftrightarrow> list_all is_js_whitespace s"
    using list_all_dropWhile [of is_js_whitespace s] by (simp add: list_all_iff)
  finally show ?thesis .
qed

lemma length_STEPS: "length STEPS = 4"
  by (simp add: STEPS_def)

lemma step_at_0: "step_at 0 = Some \<lparr> step_id = str ''profiling'', title = str ''Profiling'' \<rparr>"
  by (simp add: step_at_def STEPS_def)

lemma step_at_3: "step_at 3 = Some \<lparr> step_id = str ''review'', title = str ''Review & Submit'' \<rparr>"
  by (simp add: step_at_def STEPS_def)

lemma review_is_not_profiling: "str ''review'' \<noteq> str ''profiling''"
  by (simp add: str_def)

text \<open>
  C8: the profiling step does not validate when "Other" is among the products and
  \<open>productsOther\<close> is empty or white space, nor in the same case for the audience, nor
  when products or audience is empty; on the profiling step \<open>nextStep\<close> then only sets
  the error status and leaves the step index as it is.
\<close>

theorem profiling_validation_rejects:
  assumes "(js_includes (products (profiling (form a))) (str ''Other'')
              \<and> list_all is_js_whitespace (productsOther (profiling (form a))))
         \<or> (js_includes (audience (profiling (form a))) (str ''Other'')
              \<and> list_all is_js_whitespace (audienceOther (profiling (form a))))
         \<or> products (profiling (form a)) = []
         \<or> audience (profiling (form a)) = []"
  shows "\<not> validateStep (str ''profiling'') (form a)
       \<and> (stepIndex a = 0 \<longrightarrow>
            nextStep a = Some (a\<lparr>status :=
              \<lparr> state = Error, message = str ''Please complete this step to continue.'' \<rparr>\<rparr>))"
proof -
  have invalid: "\<not> validateStep (str ''profiling'') (form a)"
    using assms by (auto simp: validateStep_def Let_def truthy_def trim_empty_iff)
  moreover have "nextStep a = Some (a\<lparr>status :=
      \<lparr> state = Error, message = str ''Please complete this step to continue.'' \<rparr>\<rparr>)"
    if "stepIndex a = 0"
    using that invalid by (simp add: nextStep_def canProceed_def step_at_0)
  ultimately show ?thesis by simp
qed

theorem profiling_validation_rejects_witness:
  "js_includes (products (profiling (form otherBlank))) (str ''Other'')
   \<and> list_all is_js_whitespace (productsOther (profiling (form otherBlank)))
   \<and> stepIndex otherBlank = 0
   \<and> \<not> validateStep (str ''profiling'') (form otherBlank)
   \<and> nextStep otherBlank = Some (otherBlank\<lparr>status :=
        \<lparr> state = Error, message = str ''Please complete this step to continue.'' \<rparr>\<rparr>)
   \<and> js_includes (audience (profiling (form audienceBlank))) (str ''Other'')
   \<and> list_all is_js_whitespace (audienceOther (profiling (form audienceBlank)))
   \<and> \<not> validateStep (str ''profiling'') (form audienceBlank)"
proof -
  have h: "js_includes (products (profiling (form otherBlank))) (str ''Other'')
           \<and> list_all is_js_whitespace (productsOther (profiling (form otherBlank)))"
    by (simp add: otherBlank_def initialForm_def js_includes_def is_js_whitespace_def str_def)
  have i: "stepIndex otherBlank = 0"
    by (simp add: otherBlank_def initialApp_def)
  have k: "js_includes (audience (profiling (form audienceBlank))) (str ''Other'')
           \<and> list_all is_js_whitespace (audienceOther (profiling (form audienceBlank)))"
    by (simp add: audienceBlank_def initialForm_def js_includes_def is_js_whitespace_def)
  from h i k profiling_validation_rejects [of otherBlank]
    profiling_validation_rejects [of audienceBlank]
  show ?thesis by simp
qed

lemma perform_keeps_bounds:
  assumes "0 \<le> stepIndex a" and "stepIndex a \<le> 3"
  shows "\<exists>a'. perform x a = Some a' \<and> 0 \<le> stepIndex a' \<and> stepIndex a' \<le> 3"
  using assms
  by (cases x)
     (auto simp: nextStep_def prevStep_def canProceed_def successTimeout_def step_at_def
        length_STEPS split: option.splits)

lemma run_keeps_bounds:
  assumes "0 \<le> stepIndex a" and "stepIndex a \<le> 3"
  shows "\<exists>a'. run xs a = Some a' \<and> 0 \<le> stepIndex a' \<and> stepIndex a' \<le> 3"
  using assms
proof (induction xs arbitrary: a)
  case Nil
  then show ?case by simp
next
  case (Cons x xs)
  from perform_keeps_bounds [OF Cons.prems, of x] obtain b
    where b: "perform x a = Some b" "0 \<le> stepIndex b" "stepIndex b \<le> 3"
    by blast
  from Cons.IH [OF b(2,3)] b(1) show ?case by simp
qed

text \<open>
  C10: from the initial state, after any sequence of \<open>nextStep\<close> and \<open>prevStep\<close>
  (with any edits of the form, changes of consent and success timeouts in between) the
  step index is between 0 and \<open>STEPS.length - 1\<close> and \<open>STEPS[stepIndex]\<close> is defined;
  \<open>nextStep\<close> on the last step stays there and \<open>prevStep\<close> on step 0 stays at 0.
\<close>

theorem stepIndex_in_bounds:
  "(\<exists>a'. run acts initialApp = Some a'
         \<and> 0 \<le> stepIndex a' \<and> stepIndex a' \<le> int (length STEPS) - 1
         \<and> step_at (stepIndex a') \<noteq> None)
   \<and> (stepIndex b = int (length STEPS) - 1 \<longrightarrow>
        map_option stepIndex (nextStep b) = Some (int (length STEPS) - 1))
   \<and> (stepIndex b = 0 \<longrightarrow> stepIndex (prevStep b) = 0)"
proof -
  have "0 \<le> stepIndex initialApp" and "stepIndex initialApp \<le> 3"
    by (simp_all add: initialApp_def)
  from run_keeps_bounds [OF this, of acts] obtain a'
    where a': "run acts initialApp = Some a'" "0 \<le> stepIndex a'" "stepIndex a' \<le> 3"
    by blast
  then have "step_at (stepIndex a') \<noteq> None"
    by (simp add: step_at_def length_STEPS)
  with a' have first: "\<exists>a'. run acts initialApp = Some a'
         \<and> 0 \<le> stepIndex a' \<and> stepIndex a' \<le> int (length STEPS) - 1
         \<and> step_at (stepIndex a') \<noteq> None"
    by (simp add: length_STEPS)
  have last_step: "map_option stepIndex (nextStep b) = Some (int (length STEPS) - 1)"
    if "stepIndex b = int (length STEPS) - 1"
    using that
    by (simp add: nextStep_def canProceed_def length_STEPS step_at_3 validateStep_def
          review_is_not_profiling)
  have first_step: "stepIndex (prevStep b) = 0" if "stepIndex b = 0"
    using that by (simp add: prevStep_def)
  from first last_step first_step show ?thesis by blast
qed

theorem stepIndex_in_bounds_witness:
  "(\<exists>a'. run [NextStep, NextStep, NextStep, NextStep, NextStep, PrevStep] initialApp = Some a'
         \<and> 0 \<le> stepIndex a' \<and> stepIndex a' \<le> int (length STEPS) - 1
         \<and> step_at (stepIndex a') \<noteq> None)
   \<and> stepIndex lastStep = int (length STEPS) - 1
   \<and> map_option stepIndex (nextStep lastStep) = Some (int (length STEPS) - 1)
   \<and> stepIndex initialApp = 0
   \<and> stepIndex (prevStep initialApp) = 0"
proof -
  have h: "stepIndex lastStep = int (length STEPS) - 1"
    by (simp add: lastStep_def length_STEPS)
  have i: "stepIndex initialApp = 0"
    by (simp add: initialApp_def)
  from h i
    stepIndex_in_bounds [of "[NextStep, NextStep, NextStep, NextStep, NextStep, PrevStep]"
      lastStep]
    stepIndex_in_bounds [of "[]" initialApp]
  show ?thesis by simp
qed

section \<open>Properties of the storage key\<close>

lemma split_not_Nil: "split n c \<noteq> []"
  by (induction n) (auto split: list.splits)

lemma split_no_separator: "c \<notin> set n \<Longrightarrow> split n c = [n]"
  by (induction n) auto

lemma split_append: "split (a @ c # b) c = split a c @ split b c"
proof (induction a)
  case Nil
  then show ?case by simp
next
  case (Cons x xs)
  obtain seg segs where sp: "split xs c = seg # segs"
    using split_not_Nil [of xs c] by (cases "split xs c") auto
  with Cons.IH show ?case by simp
qed

lemma pop_split_with_dot:
  assumes "c \<in> set n"
  shows "pop (split n c) = Some (rev (takeWhile (\<lambda>x. x \<noteq> c) (rev n)))"
proof -
  from assms obtain a b where n: "n = a @ c # b" and b: "c \<notin> set b"
    by (auto dest: split_list_last)
  have "split n c = split a c @ [b]"
    using n b by (simp add: split_append split_no_separator)
  then have "pop (split n c) = Some b"
    by (simp add: pop_def)
  moreover have "takeWhile (\<lambda>x. x \<noteq> c) (rev b @ c # rev a)
      = rev b @ takeWhile (\<lambda>x. x \<noteq> c) (c # rev a)"
    using b by (intro takeWhile_append2) auto
  then have "takeWhile (\<lambda>x. x \<noteq> c) (rev n) = rev b"
    using n by simp
  ultimately show ?thesis by simp
qed

lemma fileExt_with_dot: "46 \<in> set (name f) \<Longrightarrow> fileExt f = Some (original_extension (name f))"
  by (simp add: fileExt_def original_extension_def pop_split_with_dot)

lemma fileExt_without_dot: "46 \<notin> set (name f) \<Longrightarrow> fileExt f = Some (name f)"
  by (simp add: fileExt_def split_no_separator pop_def)

lemma filePath_with_dot:
  "46 \<in> set (name f) \<Longrightarrow> filePath surveyId now f = spec_storage_key surveyId now (name f)"
  by (simp add: filePath_def fileName_def spec_storage_key_def fileExt_with_dot interpolate_def)

lemma filePath_without_dot:
  "46 \<notin> set (name f) \<Longrightarrow>
     filePath surveyId now f =
       str ''survey-photos/'' @ str ''survey-'' @ surveyId @ str ''-'' @ String_of_number now
         @ str ''.'' @ name f"
  by (simp add: filePath_def fileName_def fileExt_without_dot interpolate_def)

text \<open>
  C4: the storage key of a file whose name has no dot. The handler takes the last
  segment of \<open>name.split('.')\<close> as the extension, which for such a name is the whole
  name: the key ends in \<open>.photo\<close> for the file \<open>photo\<close>, whose extension is empty.
\<close>

theorem storage_key_without_extension:
  "filePath (str ''7'') 1704067200000 barePhoto = str ''survey-photos/survey-7-1704067200000.photo''
   \<and> original_extension (name barePhoto) = []
   \<and> spec_storage_key (str ''7'') 1704067200000 (name barePhoto)
        = str ''survey-photos/survey-7-1704067200000.''
   \<and> filePath (str ''7'') 1704067200000 barePhoto
        \<noteq> spec_storage_key (str ''7'') 1704067200000 (name barePhoto)"
  by (simp add: filePath_def fileName_def fileExt_def pop_def interpolate_def
        spec_storage_key_def original_extension_def String_of_number_def digits_of.simps
        barePhoto_def str_def)

section \<open>Properties of the submit handler\<close>

lemma consent_of_calls:
  "calls_of (handleSubmit a r s) \<noteq> [] \<Longrightarrow> consent a"
  by (auto simp: handleSubmit_def calls_of_def split: if_splits)

lemma handleSubmit_consented:
  "consent a \<Longrightarrow>
     handleSubmit a r s =
       (case submitBody (form a) r s of
           (Inl e, cs, s') \<Rightarrow>
             (a\<lparr>status := \<lparr> state = Error, message = message_or_default e \<rparr>\<rparr>, cs, s')
         | (Inr u, cs, s') \<Rightarrow>
             (a\<lparr>status := \<lparr> state = Success, message = str ''Survey submitted successfully.'' \<rparr>,
                showSuccess := True\<rparr>, cs, s'))"
  by (simp add: handleSubmit_def)

lemma submitBody_insert_failed:
  "insert_result r = Inl e \<Longrightarrow>
     submitBody fm r s = (Inl e, [Insert (buildPayload fm) (now_iso r)], s)"
  by (simp add: submitBody_def Let_def)

lemma submitBody_no_photo:
  "insert_result r = Inr row \<Longrightarrow> photo_file (photo fm) = None \<Longrightarrow>
     submitBody fm r s =
       (Inr (), [Insert (buildPayload fm) (now_iso r)],
        store_insert (row_id row) (buildPayload fm) (now_iso r) s)"
  by (simp add: submitBody_def Let_def)

lemma submitBody_upload_failed:
  "insert_result r = Inr row \<Longrightarrow> photo_file (photo fm) = Some f \<Longrightarrow> uploadError r = Some e \<Longrightarrow>
     submitBody fm r s =
       (Inl e,
        [Insert (buildPayload fm) (now_iso r),
         Upload (filePath (row_id row) (now_ms r) f) f (type f) False],
        store_insert (row_id row) (buildPayload fm) (now_iso r) s)"
  by (simp add: submitBody_def Let_def)

lemma submitBody_update_failed:
  "insert_result r = Inr row \<Longrightarrow> photo_file (photo fm) = Some f \<Longrightarrow> uploadError r = None \<Longrightarrow>
   updateError r = Some e \<Longrightarrow>
     submitBody fm r s =
       (Inl e,
        [Insert (buildPayload fm) (now_iso r),
         Upload (filePath (row_id row) (now_ms r) f) f (type f) False,
         GetPublicUrl (filePath (row_id row) (now_ms r) f),
         Update (filePath (row_id row) (now_ms r) f) (publicUrl_or_null (publicData r)) (row_id row)],
        store_upload (filePath (row_id row) (now_ms r) f) f
          (store_insert (row_id row) (buildPayload fm) (now_iso r) s))"
  by (simp add: submitBody_def Let_def)

lemma submitBody_done:
  "insert_result r = Inr row \<Longrightarrow> photo_file (photo fm) = Some f \<Longrightarrow> uploadError r = None \<Longrightarrow>
   updateError r = None \<Longrightarrow>
     submitBody fm r s =
       (Inr (),
        [Insert (buildPayload fm) (now_iso r),
         Upload (filePath (row_id row) (now_ms r) f) f (type f) False,
         GetPublicUrl (filePath (row_id row) (now_ms r) f),
         Update (filePath (row_id row) (now_ms r) f) (publicUrl_or_null (publicData r)) (row_id row)],
        store_update (row_id row) (filePath (row_id row) (now_ms r) f)
          (publicUrl_or_null (publicData r))
          (store_upload (filePath (row_id row) (now_ms r) f) f
            (store_insert (row_id row) (buildPayload fm) (now_iso r) s)))"
  by (simp add: submitBody_def Let_def)

lemma submitBody_one_insert:
  "length (filter is_insert (fst (snd (submitBody fm r s)))) = 1"
  by (simp add: submitBody_def Let_def split: sum.splits option.splits)

lemma submitBody_no_blob_without_photo:
  "photo_file (photo fm) = None \<Longrightarrow> \<not> list_ex is_blob_store (fst (snd (submitBody fm r s)))"
  by (simp add: submitBody_def Let_def split: sum.splits)

lemma calls_of_consented:
  "consent a \<Longrightarrow> calls_of (handleSubmit a r s) = fst (snd (submitBody (form a) r s))"
  by (simp add: handleSubmit_consented calls_of_def split: prod.splits sum.splits)

lemma calls_of_refused:
  "\<not> consent a \<Longrightarrow> calls_of (handleSubmit a r s) = []"
  by (simp add: handleSubmit_def calls_of_def)

text \<open>
  C1, as stated, fails: a submission attempt without consent makes no insert, and an
  attempt without a photo whose insert fails does not end successfully.
\<close>

theorem insert_once_counterexample:
  "length (filter is_insert (calls_of (handleSubmit (initialApp\<lparr>consent := False\<rparr>) remoteOk emptyStore))) = 0
   \<and> photo_file (photo (form initialApp)) = None
   \<and> state (status (app_after
         (handleSubmit initialApp (remoteOk\<lparr>insert_result := Inl denied\<rparr>) emptyStore))) = Error"
  by (simp add: handleSubmit_def submitBody_def calls_of_def app_after_def initialApp_def
        initialForm_def remoteOk_def)

text \<open>
  C1, amended: an attempt made with consent calls the insert exactly once; an attempt
  without a photo never calls the Blob Store; with consent, no photo and a successful
  insert, the handler ends in the success status after that single call, and the record
  created has null photo fields.
\<close>

theorem handleSubmit_insert_once:
  "(consent a \<longrightarrow> length (filter is_insert (calls_of (handleSubmit a r s))) = 1)
   \<and> (photo_file (photo (form a)) = None \<longrightarrow>
        \<not> list_ex is_blob_store (calls_of (handleSubmit a r s)))
   \<and> (consent a \<and> photo_file (photo (form a)) = None \<and> insert_result r = Inr row \<longrightarrow>
        state (status (app_after (handleSubmit a r s))) = Success
        \<and> calls_of (handleSubmit a r s) = [Insert (buildPayload (form a)) (now_iso r)]
        \<and> store_after (handleSubmit a r s) =
            s\<lparr>rows := rows s @
              [\<lparr> record_id = row_id row, created_at = now_iso r, data = buildPayload (form a),
                 photo_path = None, photo_url = None \<rparr>]\<rparr>)"
proof -
  have once: "length (filter is_insert (calls_of (handleSubmit a r s))) = 1" if "consent a"
    using that by (simp add: calls_of_consented submitBody_one_insert)
  have no_blob: "\<not> list_ex is_blob_store (calls_of (handleSubmit a r s))"
    if "photo_file (photo (form a)) = None"
  proof (cases "consent a")
    case True
    with that show ?thesis
      by (simp add: calls_of_consented submitBody_no_blob_without_photo)
  next
    case False
    then show ?thesis by (simp add: calls_of_refused)
  qed
  have ends: "state (status (app_after (handleSubmit a r s))) = Success
        \<and> calls_of (handleSubmit a r s) = [Insert (buildPayload (form a)) (now_iso r)]
        \<and> store_after (handleSubmit a r s) =
            s\<lparr>rows := rows s @
              [\<lparr> record_id = row_id row, created_at = now_iso r, data = buildPayload (form a),
                 photo_path = None, photo_url = None \<rparr>]\<rparr>"
    if "consent a" "photo_file (photo (form a)) = None" "insert_result r = Inr row"
    using that
    by (simp add: handleSubmit_consented submitBody_no_photo app_after_def calls_of_def
          store_after_def store_insert_def)
  from once no_blob ends show ?thesis by blast
qed

theorem handleSubmit_insert_once_witness:
  "consent initialApp \<and> photo_file (photo (form initialApp)) = None
   \<and> insert_result remoteOk = Inr \<lparr> row_id = str ''7'' \<rparr>
   \<and> length (filter is_insert (calls_of (handleSubmit initialApp remoteOk emptyStore))) = 1
   \<and> \<not> list_ex is_blob_store (calls_of (handleSubmit initialApp remoteOk emptyStore))
   \<and> state (status (app_after (handleSubmit initialApp remoteOk emptyStore))) = Success
   \<and> rows (store_after (handleSubmit initialApp remoteOk emptyStore)) =
        [\<lparr> record_id = str ''7'', created_at = str ''2024-01-01T00:00:00.000Z'',
           data = buildPayload initialForm, photo_path = None, photo_url = None \<rparr>]"
proof -
  have h: "consent initialApp" "photo_file (photo (form initialApp)) = None"
    "insert_result remoteOk = Inr \<lparr> row_id = str ''7'' \<rparr>"
    by (simp_all add: initialApp_def initialForm_def remoteOk_def)
  have i: "form initialApp = initialForm" "now_iso remoteOk = str ''2024-01-01T00:00:00.000Z''"
    "rows emptyStore = []"
    by (simp_all add: initialApp_def remoteOk_def emptyStore_def)
  from h i handleSubmit_insert_once [of initialApp remoteOk emptyStore "\<lparr> row_id = str ''7'' \<rparr>"]
  show ?thesis by simp
qed

text \<open>
  C2: when the insert is issued and fails, it is the only remote call (no call to the
  Blob Store, no update), the stores are as before (no record was created), and the
  handler ends in the error status with the message of the insert error.
\<close>

theorem insert_failure_stops:
  assumes "list_ex is_insert (calls_of (handleSubmit a r s))"
    and "insert_result r = Inl e"
  shows "calls_of (handleSubmit a r s) = [Insert (buildPayload (form a)) (now_iso r)]
       \<and> \<not> list_ex is_blob_store (calls_of (handleSubmit a r s))
       \<and> \<not> list_ex is_update (calls_of (handleSubmit a r s))
       \<and> store_after (handleSubmit a r s) = s
       \<and> status (app_after (handleSubmit a r s))
           = \<lparr> state = Error, message = message_or_default e \<rparr>"
proof -
  from assms(1) have "calls_of (handleSubmit a r s) \<noteq> []"
    by (cases "calls_of (handleSubmit a r s)") simp_all
  then have "consent a" by (rule consent_of_calls)
  with assms(2) show ?thesis
    by (simp add: handleSubmit_consented submitBody_insert_failed calls_of_def
          store_after_def app_after_def)
qed

theorem insert_failure_stops_witness:
  "list_ex is_insert (calls_of (handleSubmit withPhoto (remoteOk\<lparr>insert_result := Inl denied\<rparr>) emptyStore))
   \<and> insert_result (remoteOk\<lparr>insert_result := Inl denied\<rparr>) = Inl denied
   \<and> calls_of (handleSubmit withPhoto (remoteOk\<lparr>insert_result := Inl denied\<rparr>) emptyStore)
       = [Insert (buildPayload (form withPhoto)) (now_iso remoteOk)]
   \<and> store_after (handleSubmit withPhoto (remoteOk\<lparr>insert_result := Inl denied\<rparr>) emptyStore)
       = emptyStore
   \<and> status (app_after (handleSubmit withPhoto (remoteOk\<lparr>insert_result := Inl denied\<rparr>) emptyStore))
       = \<lparr> state = Error, message = str ''permission denied'' \<rparr>"
proof -
  have h: "list_ex is_insert
      (calls_of (handleSubmit withPhoto (remoteOk\<lparr>insert_result := Inl denied\<rparr>) emptyStore))"
    by (simp add: handleSubmit_def submitBody_def calls_of_def withPhoto_def initialApp_def)
  have m: "message_or_default denied = str ''permission denied''"
    by (simp add: message_or_default_def denied_def truthy_def str_def)
  from h m
    insert_failure_stops [of withPhoto "remoteOk\<lparr>insert_result := Inl denied\<rparr>" emptyStore denied]
  show ?thesis by simp
qed

lemma upload_issued:
  assumes "list_ex is_upload (calls_of (handleSubmit a r s))"
  shows "consent a"
proof -
  from assms have "calls_of (handleSubmit a r s) \<noteq> []"
    by (cases "calls_of (handleSubmit a r s)") simp_all
  then show ?thesis by (rule consent_of_calls)
qed

text \<open>
  C3: for an attempt with a photo and a successful insert in which the upload is issued
  and fails, the remote calls are the insert and the upload only (no update, and nothing
  that would undo the insert), the record created by the insert is in the store with null
  photo fields, no object was stored, and the handler ends in the error status with the
  message of the upload error.
\<close>

theorem upload_failure_keeps_record:
  assumes "photo_file (photo (form a)) = Some f"
    and "insert_result r = Inr row"
    and "list_ex is_upload (calls_of (handleSubmit a r s))"
    and "uploadError r = Some e"
  shows "calls_of (handleSubmit a r s) =
           [Insert (buildPayload (form a)) (now_iso r),
            Upload (filePath (row_id row) (now_ms r) f) f (type f) False]
       \<and> \<not> list_ex is_update (calls_of (handleSubmit a r s))
       \<and> rows (store_after (handleSubmit a r s)) =
           rows s @ [\<lparr> record_id = row_id row, created_at = now_iso r,
                       data = buildPayload (form a), photo_path = None, photo_url = None \<rparr>]
       \<and> objects (store_after (handleSubmit a r s)) = objects s
       \<and> status (app_after (handleSubmit a r s))
           = \<lparr> state = Error, message = message_or_default e \<rparr>"
proof -
  from assms(3) have "consent a" by (rule upload_issued)
  with assms(1,2,4) show ?thesis
    by (simp add: handleSubmit_consented submitBody_upload_failed calls_of_def
          store_after_def app_after_def store_insert_def)
qed

theorem upload_failure_keeps_record_witness:
  "photo_file (photo (form withPhoto)) = Some tripPhoto
   \<and> insert_result (remoteOk\<lparr>uploadError := Some denied\<rparr>) = Inr \<lparr> row_id = str ''7'' \<rparr>
   \<and> list_ex is_upload
        (calls_of (handleSubmit withPhoto (remoteOk\<lparr>uploadError := Some denied\<rparr>) emptyStore))
   \<and> uploadError (remoteOk\<lparr>uploadError := Some denied\<rparr>) = Some denied
   \<and> \<not> list_ex is_update
        (calls_of (handleSubmit withPhoto (remoteOk\<lparr>uploadError := Some denied\<rparr>) emptyStore))
   \<and> rows (store_after (handleSubmit withPhoto (remoteOk\<lparr>uploadError := Some denied\<rparr>) emptyStore))
       = [\<lparr> record_id = str ''7'', created_at = str ''2024-01-01T00:00:00.000Z'',
            data = buildPayload (form withPhoto), photo_path = None, photo_url = None \<rparr>]
   \<and> objects (store_after (handleSubmit withPhoto (remoteOk\<lparr>uploadError := Some denied\<rparr>) emptyStore))
       = []
   \<and> status (app_after (handleSubmit withPhoto (remoteOk\<lparr>uploadError := Some denied\<rparr>) emptyStore))
       = \<lparr> state = Error, message = str ''permission denied'' \<rparr>"
proof -
  have h: "photo_file (photo (form withPhoto)) = Some tripPhoto"
    "insert_result (remoteOk\<lparr>uploadError := Some denied\<rparr>) = Inr \<lparr> row_id = str ''7'' \<rparr>"
    "uploadError (remoteOk\<lparr>uploadError := Some denied\<rparr>) = Some denied"
    by (simp_all add: withPhoto_def initialApp_def remoteOk_def)
  have i: "list_ex is_upload
      (calls_of (handleSubmit withPhoto (remoteOk\<lparr>uploadError := Some denied\<rparr>) emptyStore))"
    by (simp add: handleSubmit_def submitBody_def calls_of_def withPhoto_def initialApp_def
          remoteOk_def Let_def)
  have m: "message_or_default denied = str ''permission denied''"
    "now_iso remoteOk = str ''2024-01-01T00:00:00.000Z''"
    "rows emptyStore = []" "objects emptyStore = []"
    by (simp_all add: message_or_default_def denied_def truthy_def str_def remoteOk_def
          emptyStore_def)
  from h i m
    upload_failure_keeps_record [of withPhoto tripPhoto "remoteOk\<lparr>uploadError := Some denied\<rparr>"
      "\<lparr> row_id = str ''7'' \<rparr>" emptyStore denied]
  show ?thesis by simp
qed

text \<open>
  C5, as stated, fails: the handler reads the consent flag, and the same form makes no
  remote call without consent and an insert with it.
\<close>

theorem consent_checked_counterexample:
  "calls_of (handleSubmit (initialApp\<lparr>consent := False\<rparr>) remoteOk emptyStore) = []
   \<and> calls_of (handleSubmit (initialApp\<lparr>consent := True\<rparr>) remoteOk emptyStore)
       = [Insert (buildPayload initialForm) (str ''2024-01-01T00:00:00.000Z'')]"
  by (simp add: handleSubmit_def submitBody_def calls_of_def initialApp_def
        initialForm_def remoteOk_def Let_def)

text \<open>
  C5, amended: \<open>handleSubmit\<close> checks consent itself. Without consent it makes no
  remote call, leaves the stores as they are and only sets the error status asking for
  consent; with consent its remote calls are those of the submission sequence, which
  starts with the insert and does not read the flag.
\<close>

theorem handleSubmit_checks_consent:
  "(\<not> consent a \<longrightarrow>
      handleSubmit a r s =
        (a\<lparr>status := \<lparr> state = Error, message = str ''Please confirm consent to submit.'' \<rparr>\<rparr>,
         [], s))
   \<and> (consent a \<longrightarrow>
        calls_of (handleSubmit a r s) = fst (snd (submitBody (form a) r s))
        \<and> take 1 (calls_of (handleSubmit a r s)) = [Insert (buildPayload (form a)) (now_iso r)])"
proof -
  have refused: "handleSubmit a r s =
      (a\<lparr>status := \<lparr> state = Error, message = str ''Please confirm consent to submit.'' \<rparr>\<rparr>,
       [], s)" if "\<not> consent a"
    using that by (simp add: handleSubmit_def)
  have "take 1 (fst (snd (submitBody (form a) r s)))
      = [Insert (buildPayload (form a)) (now_iso r)]"
    by (simp add: submitBody_def Let_def split: sum.splits option.splits)
  then have accepted: "calls_of (handleSubmit a r s) = fst (snd (submitBody (form a) r s))
      \<and> take 1 (calls_of (handleSubmit a r s)) = [Insert (buildPayload (form a)) (now_iso r)]"
    if "consent a"
    using that by (simp add: calls_of_consented)
  from refused accepted show ?thesis by blast
qed

theorem handleSubmit_checks_consent_witness:
  "\<not> consent (withPhoto\<lparr>consent := False\<rparr>)
   \<and> handleSubmit (withPhoto\<lparr>consent := False\<rparr>) remoteOk emptyStore =
       (withPhoto\<lparr>consent := False,
          status := \<lparr> state = Error, message = str ''Please confirm consent to submit.'' \<rparr>\<rparr>,
        [], emptyStore)
   \<and> consent withPhoto
   \<and> take 1 (calls_of (handleSubmit withPhoto remoteOk emptyStore))
       = [Insert (buildPayload (form withPhoto)) (now_iso remoteOk)]"
proof -
  have h: "\<not> consent (withPhoto\<lparr>consent := False\<rparr>)" "consent withPhoto"
    by (simp_all add: withPhoto_def initialApp_def)
  from h
    handleSubmit_checks_consent [of "withPhoto\<lparr>consent := False\<rparr>" remoteOk emptyStore]
    handleSubmit_checks_consent [of withPhoto remoteOk emptyStore]
  show ?thesis by auto
qed

lemma publicUrl_or_null_None_iff:
  "publicUrl_or_null d = None \<longleftrightarrow> d = None \<or> (\<exists>pd. d = Some pd \<and> publicUrl pd = None)"
  by (cases d) (simp_all add: publicUrl_or_null_def)

lemma publicUrl_or_null_Some:
  "publicUrl pd = Some u \<Longrightarrow> publicUrl_or_null (Some pd) = Some u"
  by (simp add: publicUrl_or_null_def)

text \<open>
  C6: for an attempt with a photo and a successful insert in which the upload is issued
  and succeeds and the Blob Store's answer to \<open>getPublicUrl\<close> carries no URL (no
  \<open>data\<close> object, or one without a \<open>publicUrl\<close>), the handler goes on to the update,
  called with the storage key as \<open>photo_path\<close> and null as \<open>photo_url\<close>; when the
  update succeeds the handler ends in the success status and the record has that path
  and a null URL.
\<close>

theorem missing_public_url_proceeds:
  assumes "photo_file (photo (form a)) = Some f"
    and "insert_result r = Inr row"
    and "list_ex is_upload (calls_of (handleSubmit a r s))"
    and "uploadError r = None"
    and "publicData r = None \<or> (\<exists>pd. publicData r = Some pd \<and> publicUrl pd = None)"
  shows "calls_of (handleSubmit a r s) =
           [Insert (buildPayload (form a)) (now_iso r),
            Upload (filePath (row_id row) (now_ms r) f) f (type f) False,
            GetPublicUrl (filePath (row_id row) (now_ms r) f),
            Update (filePath (row_id row) (now_ms r) f) None (row_id row)]
       \<and> (updateError r = None \<longrightarrow>
            state (status (app_after (handleSubmit a r s))) = Success
            \<and> \<lparr> record_id = row_id row, created_at = now_iso r, data = buildPayload (form a),
                photo_path = Some (filePath (row_id row) (now_ms r) f), photo_url = None \<rparr>
                \<in> set (rows (store_after (handleSubmit a r s))))"
proof -
  from assms(3) have c: "consent a" by (rule upload_issued)
  from assms(5) have url: "publicUrl_or_null (publicData r) = None"
    by (auto simp: publicUrl_or_null_def)
  show ?thesis
  proof (cases "updateError r")
    case None
    with c url assms(1,2,4) show ?thesis
      by (simp add: handleSubmit_consented submitBody_done calls_of_def store_after_def
            app_after_def store_insert_def store_upload_def store_update_def)
  next
    case (Some e)
    with c url assms(1,2,4) show ?thesis
      by (simp add: handleSubmit_consented submitBody_update_failed calls_of_def)
  qed
qed

theorem missing_public_url_proceeds_witness:
  "photo_file (photo (form withPhoto)) = Some tripPhoto
   \<and> insert_result (remoteOk\<lparr>publicData := None\<rparr>) = Inr \<lparr> row_id = str ''7'' \<rparr>
   \<and> list_ex is_upload (calls_of (handleSubmit withPhoto (remoteOk\<lparr>publicData := None\<rparr>) emptyStore))
   \<and> uploadError (remoteOk\<lparr>publicData := None\<rparr>) = None
   \<and> publicData (remoteOk\<lparr>publicData := None\<rparr>) = None
   \<and> updateError (remoteOk\<lparr>publicData := None\<rparr>) = None
   \<and> calls_of (handleSubmit withPhoto (remoteOk\<lparr>publicData := None\<rparr>) emptyStore) =
        [Insert (buildPayload (form withPhoto)) (str ''2024-01-01T00:00:00.000Z''),
         Upload (str ''survey-photos/survey-7-1704067200000.jpg'') tripPhoto (str ''image/jpeg'') False,
         GetPublicUrl (str ''survey-photos/survey-7-1704067200000.jpg''),
         Update (str ''survey-photos/survey-7-1704067200000.jpg'') None (str ''7'')]
   \<and> state (status (app_after (handleSubmit withPhoto (remoteOk\<lparr>publicData := None\<rparr>) emptyStore)))
        = Success
   \<and> \<lparr> record_id = str ''7'', created_at = str ''2024-01-01T00:00:00.000Z'',
        data = buildPayload (form withPhoto),
        photo_path = Some (str ''survey-photos/survey-7-1704067200000.jpg''), photo_url = None \<rparr>
        \<in> set (rows (store_after (handleSubmit withPhoto (remoteOk\<lparr>publicData := None\<rparr>) emptyStore)))
   \<and> publicData (remoteOk\<lparr>publicData := Some \<lparr> publicUrl = None \<rparr>\<rparr>) = Some \<lparr> publicUrl = None \<rparr>
   \<and> publicUrl \<lparr> publicUrl = None \<rparr> = None
   \<and> list_ex is_upload
        (calls_of (handleSubmit withPhoto (remoteOk\<lparr>publicData := Some \<lparr> publicUrl = None \<rparr>\<rparr>)
           emptyStore))
   \<and> calls_of (handleSubmit withPhoto (remoteOk\<lparr>publicData := Some \<lparr> publicUrl = None \<rparr>\<rparr>)
         emptyStore) =
        [Insert (buildPayload (form withPhoto)) (str ''2024-01-01T00:00:00.000Z''),
         Upload (str ''survey-photos/survey-7-1704067200000.jpg'') tripPhoto (str ''image/jpeg'') False,
         GetPublicUrl (str ''survey-photos/survey-7-1704067200000.jpg''),
         Update (str ''survey-photos/survey-7-1704067200000.jpg'') None (str ''7'')]
   \<and> state (status (app_after
         (handleSubmit withPhoto (remoteOk\<lparr>publicData := Some \<lparr> publicUrl = None \<rparr>\<rparr>) emptyStore)))
        = Success"
proof -
  have h: "photo_file (photo (form withPhoto)) = Some tripPhoto"
    "insert_result (remoteOk\<lparr>publicData := None\<rparr>) = Inr \<lparr> row_id = str ''7'' \<rparr>"
    "uploadError (remoteOk\<lparr>publicData := None\<rparr>) = None"
    "publicData (remoteOk\<lparr>publicData := None\<rparr>) = None"
    "updateError (remoteOk\<lparr>publicData := None\<rparr>) = None"
    by (simp_all add: withPhoto_def initialApp_def remoteOk_def)
  have h': "insert_result (remoteOk\<lparr>publicData := Some \<lparr> publicUrl = None \<rparr>\<rparr>)
        = Inr \<lparr> row_id = str ''7'' \<rparr>"
    "uploadError (remoteOk\<lparr>publicData := Some \<lparr> publicUrl = None \<rparr>\<rparr>) = None"
    "publicData (remoteOk\<lparr>publicData := Some \<lparr> publicUrl = None \<rparr>\<rparr>) = Some \<lparr> publicUrl = None \<rparr>"
    "updateError (remoteOk\<lparr>publicData := Some \<lparr> publicUrl = None \<rparr>\<rparr>) = None"
    by (simp_all add: remoteOk_def)
  have i: "list_ex is_upload
      (calls_of (handleSubmit withPhoto (remoteOk\<lparr>publicData := None\<rparr>) emptyStore))"
    "list_ex is_upload
      (calls_of (handleSubmit withPhoto (remoteOk\<lparr>publicData := Some \<lparr> publicUrl = None \<rparr>\<rparr>)
         emptyStore))"
    by (simp_all add: handleSubmit_def submitBody_def calls_of_def withPhoto_def initialApp_def
          remoteOk_def Let_def)
  have k: "filePath (str ''7'') 1704067200000 tripPhoto
      = str ''survey-photos/survey-7-1704067200000.jpg''"
    by (simp add: filePath_def fileName_def fileExt_def pop_def interpolate_def
          String_of_number_def digits_of.simps tripPhoto_def str_def)
  have m: "now_iso (remoteOk\<lparr>publicData := None\<rparr>) = str ''2024-01-01T00:00:00.000Z''"
    "now_ms (remoteOk\<lparr>publicData := None\<rparr>) = 1704067200000"
    "now_iso (remoteOk\<lparr>publicData := Some \<lparr> publicUrl = None \<rparr>\<rparr>) = str ''2024-01-01T00:00:00.000Z''"
    "now_ms (remoteOk\<lparr>publicData := Some \<lparr> publicUrl = None \<rparr>\<rparr>) = 1704067200000"
    "type tripPhoto = str ''image/jpeg''"
    by (simp_all add: remoteOk_def tripPhoto_def)
  from h h' i k m
    missing_public_url_proceeds [of withPhoto tripPhoto "remoteOk\<lparr>publicData := None\<rparr>"
      "\<lparr> row_id = str ''7'' \<rparr>" emptyStore]
    missing_public_url_proceeds [of withPhoto tripPhoto
      "remoteOk\<lparr>publicData := Some \<lparr> publicUrl = None \<rparr>\<rparr>" "\<lparr> row_id = str ''7'' \<rparr>" emptyStore]
  show ?thesis by simp
qed

end
